theory Spec2Isabelle
  imports Complex_Main "HOL-Library.Multiset"
begin

section \<open>JavaScript values\<close>

text \<open>
  The values that flow through \<^verbatim>\<open>server.js\<close>: what \<^verbatim>\<open>JSON.parse\<close> produces for a
  request body, \<^verbatim>\<open>undefined\<close> for an absent property, and the two ways the program
  builds a \<^verbatim>\<open>Date\<close>: \<^verbatim>\<open>new Date()\<close> (a reading of the server clock, in milliseconds)
  and \<^verbatim>\<open>new Date(v)\<close> (a date parsed from the value \<open>v\<close>).

  An object is the list of its own properties; \<open>map_of\<close> reads it. A number carries its
  value: the program never computes with numbers, it only asks for their type and whether
  they are zero, and \<^verbatim>\<open>JSON.parse\<close> never yields \<^verbatim>\<open>NaN\<close>. A string is the list
  of its characters: of a string of a body the program only asks whether it is empty.
\<close>

datatype jsval =
    JUndefined
  | JNull
  | JBool bool
  | JNum real
  | JStr string
  | JArr "jsval list"
  | JObj "(string \<times> jsval) list"
  | JDateAt int
  | JDateOf jsval

text \<open>Exceptions: a \<^verbatim>\<open>TypeError\<close> raised by the engine, or a value thrown by \<^verbatim>\<open>throw error\<close>.\<close>

datatype exn = TypeError | Thrown jsval

text \<open>Truthiness, as \<^verbatim>\<open>if(v)\<close>, \<^verbatim>\<open>!v\<close> and \<^verbatim>\<open>v || w\<close> test it.\<close>

fun truthy :: "jsval \<Rightarrow> bool" where
  "truthy JUndefined = False"
| "truthy JNull = False"
| "truthy (JBool b) = b"
| "truthy (JNum x) = (x \<noteq> 0)"
| "truthy (JStr s) = (s \<noteq> [])"
| "truthy (JArr xs) = True"
| "truthy (JObj kvs) = True"
| "truthy (JDateAt t) = True"
| "truthy (JDateOf v) = True"

text \<open>\<^verbatim>\<open>a || b\<close>\<close>

definition js_or :: "jsval \<Rightarrow> jsval \<Rightarrow> jsval" where
  "js_or a b = (if truthy a then a else b)"

text \<open>\<^verbatim>\<open>typeof v === 'number'\<close>\<close>

fun is_number :: "jsval \<Rightarrow> bool" where
  "is_number (JNum x) = True"
| "is_number v = False"

text \<open>\<^verbatim>\<open>Array.isArray(v)\<close>, and the elements of an array.\<close>

fun is_array :: "jsval \<Rightarrow> bool" where
  "is_array (JArr xs) = True"
| "is_array v = False"

fun elements :: "jsval \<Rightarrow> jsval list" where
  "elements (JArr xs) = xs"
| "elements v = []"

text \<open>
  Property read \<^verbatim>\<open>v.k\<close> (and destructuring \<^verbatim>\<open>const { k } = v\<close>) for the property names
  this program reads, none of which a prototype defines: a \<^verbatim>\<open>TypeError\<close> on
  \<^verbatim>\<open>undefined\<close> and \<^verbatim>\<open>null\<close>, the own property of an object, \<^verbatim>\<open>undefined\<close> otherwise.
\<close>

fun get_prop :: "jsval \<Rightarrow> string \<Rightarrow> exn + jsval" where
  "get_prop JUndefined k = Inl TypeError"
| "get_prop JNull k = Inl TypeError"
| "get_prop (JObj kvs) k = Inr (case map_of kvs k of None \<Rightarrow> JUndefined | Some v \<Rightarrow> v)"
| "get_prop v k = Inr JUndefined"

text \<open>The same read on a value known not to be \<^verbatim>\<open>undefined\<close> or \<^verbatim>\<open>null\<close>.\<close>

definition get_field :: "jsval \<Rightarrow> string \<Rightarrow> jsval" where
  "get_field v k = (case get_prop v k of Inl e \<Rightarrow> JUndefined | Inr x \<Rightarrow> x)"

section \<open>Requests and responses\<close>

text \<open>
  A header of Node's \<^verbatim>\<open>req.headers\<close> is a string or, for a few names, an array of strings.
  Node decodes header bytes as Latin-1, so a header character is one \<open>char\<close>.
\<close>

datatype hval = HStr string | HArr "string list"

record socket =
  remoteAddress :: "string option"

record request =
  headers :: "string \<rightharpoonup> hval"
  socket :: "socket option"
  body :: jsval

record response =
  status :: nat
  payload :: jsval

section \<open>Client network resolver\<close>

text \<open>\<^verbatim>\<open>s.split(',')\<close>: the first piece and the others. There is always a first piece.\<close>

fun split_comma :: "string \<Rightarrow> string \<times> string list" where
  "split_comma [] = ([], [])"
| "split_comma (c # cs) =
     (case split_comma cs of (h, t) \<Rightarrow>
        if c = CHR '','' then ([], h # t) else (c # h, t))"

text \<open>
  White space and line terminators of ECMAScript among the Latin-1 characters:
  TAB, LF, VT, FF, CR, SPACE and NBSP.
\<close>

definition is_space :: "char \<Rightarrow> bool" where
  "is_space c = (of_char c \<in> {9, 10, 11, 12, 13, 32, 160 :: nat})"

text \<open>\<^verbatim>\<open>s.trim()\<close>\<close>

definition trim :: "string \<Rightarrow> string" where
  "trim s = rev (dropWhile is_space (rev (dropWhile is_space s)))"

text \<open>
  \<^verbatim>\<open>
  function getClientIp(req){
    const xff = req.headers['x-forwarded-for'];
    if(xff && typeof xff === 'string') return xff.split(',')[0].trim();
    return req.socket?.remoteAddress || null;
  }
  \<close>
  \<open>None\<close> is \<^verbatim>\<open>null\<close>.
\<close>

definition peer_address :: "request \<Rightarrow> string option" where
  "peer_address req =
     (case socket req of
        None \<Rightarrow> None
      | Some sock \<Rightarrow>
          (case remoteAddress sock of
             None \<Rightarrow> None
           | Some a \<Rightarrow> if a \<noteq> [] then Some a else None))"

definition getClientIp :: "request \<Rightarrow> string option" where
  "getClientIp req =
     (case headers req ''x-forwarded-for'' of
        Some (HStr xff) \<Rightarrow>
          if xff \<noteq> [] then Some (trim (fst (split_comma xff))) else peer_address req
      | _ \<Rightarrow> peer_address req)"

section \<open>The store, the clock and the geolocation provider\<close>

text \<open>
  The calls that \<^verbatim>\<open>server.js\<close> makes on the Supabase client. Every read of the program
  has the shape
  \<^verbatim>\<open>from(t).select(cols)[.eq(c, v)].order(col, { ascending: false }).limit(n)\<close>.
  \<open>q_columns = None\<close> is \<^verbatim>\<open>select('*')\<close>.
\<close>

record query =
  q_table :: string
  q_columns :: "string list option"
  q_eq :: "(string \<times> jsval) option"
  q_order :: string
  q_limit :: nat

datatype store_call =
    Insert string "jsval list"
  | InsertSelectSingle string "jsval list"
  | Update string jsval string jsval
  | Select query

text \<open>What the client resolves to: \<^verbatim>\<open>{ data, error }\<close>.\<close>

record reply =
  data :: jsval
  error :: jsval

datatype effect = Store store_call | Fetch string

text \<open>
  What a request handler reads from outside: \<open>clock w k\<close> is the value of the \<open>k\<close>-th
  \<^verbatim>\<open>new Date()\<close> evaluated while the request is handled (counted from 0), \<open>store\<close> is
  the answer of the store to a call, \<open>IPINFO_TOKEN\<close> is the environment variable of that
  name, \<open>fetch_json url\<close> is the outcome of \<^verbatim>\<open>(await fetch(url)).json()\<close>, and
  \<open>type_error_text\<close> is the message that the engine gives the \<^verbatim>\<open>TypeError\<close> it raises
  while the request is handled, if it raises one: the first exception ends the handler,
  so there is at most one.
\<close>

record world =
  clock :: "nat \<Rightarrow> int"
  store :: "store_call \<Rightarrow> reply"
  IPINFO_TOKEN :: "string option"
  fetch_json :: "string \<Rightarrow> exn + jsval"
  type_error_text :: string

text \<open>
  \<^verbatim>\<open>e.message\<close> in a \<^verbatim>\<open>catch\<close> block: the text that the engine gave its
  \<^verbatim>\<open>TypeError\<close>, or the \<^verbatim>\<open>message\<close> of the value thrown.
\<close>

fun message :: "world \<Rightarrow> exn \<Rightarrow> jsval" where
  "message w TypeError = JStr (type_error_text w)"
| "message w (Thrown v) = get_field v ''message''"

section \<open>Responses\<close>

definition ok200 :: "(string \<times> jsval) list \<Rightarrow> response" where
  "ok200 rest = \<lparr>status = 200, payload = JObj ((''ok'', JBool True) # rest)\<rparr>"

definition fail :: "nat \<Rightarrow> jsval \<Rightarrow> response" where
  "fail code msg = \<lparr>status = code, payload = JObj [(''ok'', JBool False), (''error'', msg)]\<rparr>"

text \<open>
  \<^verbatim>\<open>try { ... } catch(e){ return res.status(500).json({ ok:false, error: e.message }); }\<close>
  around a handler body that has made the calls \<open>fx\<close>.
\<close>

definition catch500 :: "world \<Rightarrow> (exn + response) \<times> effect list \<Rightarrow> response \<times> effect list" where
  "catch500 w r =
     (case r of (Inl e, fx) \<Rightarrow> (fail 500 (message w e), fx) | (Inr resp, fx) \<Rightarrow> (resp, fx))"

text \<open>\<^verbatim>\<open>if(error) throw error;\<close> and then the rest.\<close>

definition or_throw :: "reply \<Rightarrow> (exn + 'a) \<Rightarrow> exn + 'a" where
  "or_throw r rest = (if truthy (error r) then Inl (Thrown (error r)) else rest)"

section \<open>POST /users\<close>

text \<open>
  \<^verbatim>\<open>
  const { id, username, phone } = req.body;
  if(id){
    const { error } = await supabase.from('users').update({ username, phone }).eq('id', id);
    if(error) throw error;
    return res.json({ ok: true, id });
  } else {
    const { data, error } = await supabase.from('users').insert([{ username, phone }]).select().single();
    if(error) throw error;
    return res.json({ ok:true, id: data.id, user: data });
  }
  \<close>
\<close>

definition users_body :: "world \<Rightarrow> request \<Rightarrow> (exn + response) \<times> effect list" where
  "users_body w req =
     (case get_prop (body req) ''id'' of
        Inl e \<Rightarrow> (Inl e, [])
      | Inr id' \<Rightarrow>
          let username = get_field (body req) ''username'';
              phone = get_field (body req) ''phone''
          in if truthy id' then
               let c = Update ''users'' (JObj [(''username'', username), (''phone'', phone)]) ''id'' id'
               in (or_throw (store w c) (Inr (ok200 [(''id'', id')])), [Store c])
             else
               let c = InsertSelectSingle ''users'' [JObj [(''username'', username), (''phone'', phone)]];
                   r = store w c
               in (or_throw r
                     (case get_prop (data r) ''id'' of
                        Inl e \<Rightarrow> Inl e
                      | Inr new_id \<Rightarrow> Inr (ok200 [(''id'', new_id), (''user'', data r)])),
                   [Store c]))"

definition post_users :: "world \<Rightarrow> request \<Rightarrow> response \<times> effect list" where
  "post_users w req = catch500 w (users_body w req)"

section \<open>POST /consent\<close>

text \<open>
  \<^verbatim>\<open>
  const { user_id, consent_text } = req.body;
  if(!user_id || !consent_text) return res.status(400).json({ ok:false, error: 'user_id et consent_text requis' });
  const { error } = await supabase.from('consent_logs').insert([{ user_id, consent_text, given: true }]);
  if(error) throw error;
  return res.json({ ok:true });
  \<close>
\<close>

definition consent_body :: "world \<Rightarrow> request \<Rightarrow> (exn + response) \<times> effect list" where
  "consent_body w req =
     (case get_prop (body req) ''user_id'' of
        Inl e \<Rightarrow> (Inl e, [])
      | Inr user_id \<Rightarrow>
          let consent_text = get_field (body req) ''consent_text''
          in if \<not> truthy user_id \<or> \<not> truthy consent_text then
               (Inr (fail 400 (JStr ''user_id et consent_text requis'')), [])
             else
               let c = Insert ''consent_logs''
                         [JObj [(''user_id'', user_id), (''consent_text'', consent_text),
                                (''given'', JBool True)]]
               in (or_throw (store w c) (Inr (ok200 [])), [Store c]))"

definition post_consent :: "world \<Rightarrow> request \<Rightarrow> response \<times> effect list" where
  "post_consent w req = catch500 w (consent_body w req)"

section \<open>POST /report-location\<close>

text \<open>The resolved address as a value: \<^verbatim>\<open>null\<close> or a string.\<close>

definition ip_value :: "string option \<Rightarrow> jsval" where
  "ip_value ip = (case ip of None \<Rightarrow> JNull | Some a \<Rightarrow> JStr a)"

text \<open>
  \<^verbatim>\<open>
  const ip = getClientIp(req);
  const { user_id, latitude, longitude, accuracy } = req.body;
  if(!user_id || typeof latitude !== 'number' || typeof longitude !== 'number'){
    return res.status(400).json({ ok:false, error: 'user_id, latitude et longitude requis' });
  }
  const payload = { user_id, latitude, longitude, accuracy: accuracy || null, ip, created_at: new Date() };
  const { error } = await supabase.from('device_locations').insert([payload]);
  if(error) throw error;
  return res.json({ ok:true });
  \<close>
\<close>

definition location_body :: "world \<Rightarrow> request \<Rightarrow> (exn + response) \<times> effect list" where
  "location_body w req =
     (let ip = getClientIp req
      in case get_prop (body req) ''user_id'' of
           Inl e \<Rightarrow> (Inl e, [])
         | Inr user_id \<Rightarrow>
             let latitude = get_field (body req) ''latitude'';
                 longitude = get_field (body req) ''longitude'';
                 accuracy = get_field (body req) ''accuracy''
             in if \<not> truthy user_id \<or> \<not> is_number latitude \<or> \<not> is_number longitude then
                  (Inr (fail 400 (JStr ''user_id, latitude et longitude requis'')), [])
                else
                  let c = Insert ''device_locations''
                            [JObj [(''user_id'', user_id), (''latitude'', latitude),
                                   (''longitude'', longitude),
                                   (''accuracy'', js_or accuracy JNull),
                                   (''ip'', ip_value ip),
                                   (''created_at'', JDateAt (clock w 0))]]
                  in (or_throw (store w c) (Inr (ok200 [])), [Store c]))"

definition post_report_location :: "world \<Rightarrow> request \<Rightarrow> response \<times> effect list" where
  "post_report_location w req = catch500 w (location_body w req)"

section \<open>POST /report-calls\<close>

text \<open>
  \<^verbatim>\<open>new Date(v)\<close> for a value \<open>v\<close> of a request body. A primitive is parsed or taken
  as a number and nothing is thrown. An object or an array is first converted to a
  primitive: \<^verbatim>\<open>valueOf\<close> is tried, then \<^verbatim>\<open>toString\<close>, each only when it is callable, and
  a \<^verbatim>\<open>TypeError\<close> is thrown when neither gives a primitive. The inherited
  \<^verbatim>\<open>valueOf\<close> returns the object itself; an own property of a parsed object is never
  callable. So an object throws exactly when it has an own property \<^verbatim>\<open>toString\<close>, which
  hides the inherited one. The \<^verbatim>\<open>toString\<close> of an array joins the strings of its
  elements, skipping \<^verbatim>\<open>null\<close> and \<^verbatim>\<open>undefined\<close>, so an array throws exactly when the
  conversion of one of its elements to a string does, which for an object is again when
  it has an own \<^verbatim>\<open>toString\<close>.
\<close>

fun date_throws :: "jsval \<Rightarrow> bool" where
  "date_throws (JObj kvs) = (map_of kvs ''toString'' \<noteq> None)"
| "date_throws (JArr xs) = (\<exists>x \<in> set xs. date_throws x)"
| "date_throws v = False"

definition new_date :: "jsval \<Rightarrow> exn + jsval" where
  "new_date v = (if date_throws v then Inl TypeError else Inr (JDateOf v))"

text \<open>
  \<^verbatim>\<open>
  c => ({
    user_id,
    number: c.number,
    direction: c.direction || null,
    started_at: c.started_at ? new Date(c.started_at) : null,
    duration_seconds: c.duration_seconds || null,
    created_at: new Date()
  })
  \<close>
  applied to the element \<open>c\<close> when \<open>k\<close> dates have been taken from the clock already.
  Reading a property of a \<^verbatim>\<open>null\<close> element throws, and so does \<^verbatim>\<open>new Date\<close> of a
  \<open>started_at\<close> that has no primitive value.
\<close>

definition call_row :: "world \<Rightarrow> jsval \<Rightarrow> nat \<Rightarrow> jsval \<Rightarrow> exn + jsval" where
  "call_row w user_id k c =
     (case get_prop c ''number'' of
        Inl e \<Rightarrow> Inl e
      | Inr number \<Rightarrow>
          (case (if truthy (get_field c ''started_at'')
                 then new_date (get_field c ''started_at'') else Inr JNull) of
             Inl e \<Rightarrow> Inl e
           | Inr started_at \<Rightarrow>
               Inr (JObj [(''user_id'', user_id),
                          (''number'', number),
                          (''direction'', js_or (get_field c ''direction'') JNull),
                          (''started_at'', started_at),
                          (''duration_seconds'', js_or (get_field c ''duration_seconds'') JNull),
                          (''created_at'', JDateAt (clock w k))])))"

text \<open>\<^verbatim>\<open>calls.map(c => ...)\<close>, left to right; the first exception ends it.\<close>

fun map_rows :: "world \<Rightarrow> jsval \<Rightarrow> nat \<Rightarrow> jsval list \<Rightarrow> exn + jsval list" where
  "map_rows w user_id k [] = Inr []"
| "map_rows w user_id k (c # cs) =
     (case call_row w user_id k c of
        Inl e \<Rightarrow> Inl e
      | Inr r \<Rightarrow>
          (case map_rows w user_id (Suc k) cs of
             Inl e \<Rightarrow> Inl e
           | Inr rs \<Rightarrow> Inr (r # rs)))"

text \<open>
  \<^verbatim>\<open>
  const { user_id, calls } = req.body;
  if(!user_id || !Array.isArray(calls)) return res.status(400).json({ ok:false, error: 'user_id et calls[] requis' });
  const rows = calls.map(...);
  const { error } = await supabase.from('call_logs').insert(rows);
  if(error) throw error;
  return res.json({ ok:true, inserted: rows.length });
  \<close>
\<close>

definition calls_body :: "world \<Rightarrow> request \<Rightarrow> (exn + response) \<times> effect list" where
  "calls_body w req =
     (case get_prop (body req) ''user_id'' of
        Inl e \<Rightarrow> (Inl e, [])
      | Inr user_id \<Rightarrow>
          let calls = get_field (body req) ''calls''
          in if \<not> truthy user_id \<or> \<not> is_array calls then
               (Inr (fail 400 (JStr ''user_id et calls[] requis'')), [])
             else
               (case map_rows w user_id 0 (elements calls) of
                  Inl e \<Rightarrow> (Inl e, [])
                | Inr rows \<Rightarrow>
                    let c = Insert ''call_logs'' rows
                    in (or_throw (store w c)
                          (Inr (ok200 [(''inserted'', JNum (of_nat (length rows)))])),
                        [Store c])))"

definition post_report_calls :: "world \<Rightarrow> request \<Rightarrow> response \<times> effect list" where
  "post_report_calls w req = catch500 w (calls_body w req)"

section \<open>POST /report-ip\<close>

text \<open>
  \<^verbatim>\<open>
  const IPINFO_TOKEN = process.env.IPINFO_TOKEN || null;
  if(!IPINFO_TOKEN) return res.status(500).json({ ok:false, error: 'IPINFO_TOKEN non configure' });
  const user_id = req.body.user_id;
  if(!user_id) return res.status(400).json({ ok:false, error: 'user_id requis' });
  const ip = getClientIp(req);
  const resp = await fetch(`https://ipinfo.io/${ip}/json?token=${IPINFO_TOKEN}`);
  const geo = await resp.json();
  const row = { user_id, ip, city: geo.city || null, region: geo.region || null,
    country: geo.country || null, loc: geo.loc || null, provider: geo.org || null,
    created_at: new Date() };
  const { error } = await supabase.from('ip_locations').insert([row]);
  if(error) throw error;
  return res.json({ ok:true, geo });
  \<close>
  The last letter of the first message is U+00E9 in the source, here its two UTF-8 bytes.
\<close>

definition token_missing :: string where
  "token_missing = ''IPINFO_TOKEN non configur'' @ [char_of (195 :: nat), char_of (169 :: nat)]"

definition ipinfo_url :: "string option \<Rightarrow> string \<Rightarrow> string" where
  "ipinfo_url ip token =
     ''https://ipinfo.io/'' @ (case ip of None \<Rightarrow> ''null'' | Some a \<Rightarrow> a) @ ''/json?token='' @ token"

definition geo_row :: "world \<Rightarrow> jsval \<Rightarrow> string option \<Rightarrow> jsval \<Rightarrow> exn + jsval" where
  "geo_row w user_id ip geo =
     (case get_prop geo ''city'' of
        Inl e \<Rightarrow> Inl e
      | Inr city \<Rightarrow>
          Inr (JObj [(''user_id'', user_id),
                     (''ip'', ip_value ip),
                     (''city'', js_or city JNull),
                     (''region'', js_or (get_field geo ''region'') JNull),
                     (''country'', js_or (get_field geo ''country'') JNull),
                     (''loc'', js_or (get_field geo ''loc'') JNull),
                     (''provider'', js_or (get_field geo ''org'') JNull),
                     (''created_at'', JDateAt (clock w 0))]))"

definition ip_body :: "world \<Rightarrow> request \<Rightarrow> (exn + response) \<times> effect list" where
  "ip_body w req =
     (case IPINFO_TOKEN w of
        None \<Rightarrow> (Inr (fail 500 (JStr token_missing)), [])
      | Some token \<Rightarrow>
          if token = [] then (Inr (fail 500 (JStr token_missing)), [])
          else
            (case get_prop (body req) ''user_id'' of
               Inl e \<Rightarrow> (Inl e, [])
             | Inr user_id \<Rightarrow>
                 if \<not> truthy user_id then (Inr (fail 400 (JStr ''user_id requis'')), [])
                 else
                   let ip = getClientIp req; url = ipinfo_url ip token
                   in (case fetch_json w url of
                         Inl e \<Rightarrow> (Inl e, [Fetch url])
                       | Inr geo \<Rightarrow>
                           (case geo_row w user_id ip geo of
                              Inl e \<Rightarrow> (Inl e, [Fetch url])
                            | Inr row \<Rightarrow>
                                let c = Insert ''ip_locations'' [row]
                                in (or_throw (store w c) (Inr (ok200 [(''geo'', geo)])),
                                    [Fetch url, Store c])))))"

definition post_report_ip :: "world \<Rightarrow> request \<Rightarrow> response \<times> effect list" where
  "post_report_ip w req = catch500 w (ip_body w req)"

section \<open>GET /admin/users\<close>

definition users_query :: query where
  "users_query =
     \<lparr>q_table = ''users'', q_columns = Some [''id'', ''username'', ''phone'', ''created_at''],
      q_eq = None, q_order = ''created_at'', q_limit = 200\<rparr>"

text \<open>
  \<^verbatim>\<open>from(t).select('*').eq('user_id', uid).order(col, { ascending: false }).limit(n)\<close>
\<close>

definition latest_query :: "string \<Rightarrow> jsval \<Rightarrow> string \<Rightarrow> nat \<Rightarrow> query" where
  "latest_query t uid col n =
     \<lparr>q_table = t, q_columns = None, q_eq = Some (''user_id'', uid), q_order = col, q_limit = n\<rparr>"

text \<open>\<^verbatim>\<open>v?.[0]\<close>\<close>

fun opt_first :: "jsval \<Rightarrow> jsval" where
  "opt_first (JArr (x # xs)) = x"
| "opt_first (JStr (c # cs)) = JStr [c]"
| "opt_first (JObj kvs) = get_field (JObj kvs) ''0''"
| "opt_first v = JUndefined"

text \<open>
  The body of the loop over the users, for the user \<open>u\<close>:
  \<^verbatim>\<open>
  const [{ data: loc }] = await Promise.all([
    supabase.from('device_locations').select('*').eq('user_id', u.id).order('created_at', { ascending: false }).limit(1),
    supabase.from('ip_locations').select('*').eq('user_id', u.id).order('created_at', { ascending: false }).limit(1)
  ]);
  const { data: calls } = await supabase.from('call_logs').select('*').eq('user_id', u.id).order('started_at', { ascending: false }).limit(10);
  results.push({ user: u, last_location: loc?.[0] || null,
    last_ip: (await supabase.from('ip_locations').select('*').eq('user_id', u.id).order('created_at',{ascending:false}).limit(1)).data?.[0] || null,
    calls: calls || [] });
  \<close>
  The \<open>error\<close> of these replies is not read.
\<close>

definition admin_user :: "world \<Rightarrow> jsval \<Rightarrow> (exn + jsval) \<times> effect list" where
  "admin_user w u =
     (case get_prop u ''id'' of
        Inl e \<Rightarrow> (Inl e, [])
      | Inr uid \<Rightarrow>
          let q_loc = Select (latest_query ''device_locations'' uid ''created_at'' 1);
              q_ip = Select (latest_query ''ip_locations'' uid ''created_at'' 1);
              q_calls = Select (latest_query ''call_logs'' uid ''started_at'' 10);
              loc = data (store w q_loc);
              calls = data (store w q_calls)
          in (Inr (JObj [(''user'', u),
                         (''last_location'', js_or (opt_first loc) JNull),
                         (''last_ip'', js_or (opt_first (data (store w q_ip))) JNull),
                         (''calls'', js_or calls (JArr []))]),
              [Store q_loc, Store q_ip, Store q_calls, Store q_ip]))"

text \<open>\<^verbatim>\<open>for(const u of users){ ... }\<close> over the elements; the first exception ends it.\<close>

fun admin_loop :: "world \<Rightarrow> jsval list \<Rightarrow> (exn + jsval list) \<times> effect list" where
  "admin_loop w [] = (Inr [], [])"
| "admin_loop w (u # us) =
     (case admin_user w u of
        (Inl e, fx) \<Rightarrow> (Inl e, fx)
      | (Inr r, fx) \<Rightarrow>
          (case admin_loop w us of
             (Inl e, fx') \<Rightarrow> (Inl e, fx @ fx')
           | (Inr rs, fx') \<Rightarrow> (Inr (r # rs), fx @ fx')))"

text \<open>
  What \<^verbatim>\<open>for ... of\<close> iterates: the elements of an array, the characters of a string; any
  other value of this model is not iterable.
\<close>

fun iterate :: "jsval \<Rightarrow> exn + jsval list" where
  "iterate (JArr xs) = Inr xs"
| "iterate (JStr s) = Inr (map (\<lambda>c. JStr [c]) s)"
| "iterate v = Inl TypeError"

text \<open>
  \<^verbatim>\<open>
  const { data: users } = await supabase.from('users').select('id, username, phone, created_at').order('created_at', { ascending: false }).limit(200);
  const results = [];
  for(const u of users){ ... }
  return res.json({ ok:true, results });
  \<close>
\<close>

definition admin_body :: "world \<Rightarrow> (exn + response) \<times> effect list" where
  "admin_body w =
     (let q = Select users_query; users = data (store w q)
      in case iterate users of
           Inl e \<Rightarrow> (Inl e, [Store q])
         | Inr us \<Rightarrow>
             (case admin_loop w us of
                (Inl e, fx) \<Rightarrow> (Inl e, Store q # fx)
              | (Inr results, fx) \<Rightarrow> (Inr (ok200 [(''results'', JArr results)]), Store q # fx)))"

definition get_admin_users :: "world \<Rightarrow> request \<Rightarrow> response \<times> effect list" where
  "get_admin_users w req = catch500 w (admin_body w)"

section \<open>GET /health and the routes\<close>

text \<open>
  \<^verbatim>\<open>res.json({ ok:true, time: new Date().toISOString() })\<close>; the date stands for its
  ISO string, which is also how a date is written into a response.
\<close>

definition get_health :: "world \<Rightarrow> request \<Rightarrow> response \<times> effect list" where
  "get_health w req = (ok200 [(''time'', JDateAt (clock w 0))], [])"

datatype endpoint =
    PostUsers | PostConsent | PostReportLocation | PostReportCalls | PostReportIp
  | GetAdminUsers | GetHealth

fun handle :: "endpoint \<Rightarrow> world \<Rightarrow> request \<Rightarrow> response \<times> effect list" where
  "handle PostUsers = post_users"
| "handle PostConsent = post_consent"
| "handle PostReportLocation = post_report_location"
| "handle PostReportCalls = post_report_calls"
| "handle PostReportIp = post_report_ip"
| "handle GetAdminUsers = get_admin_users"
| "handle GetHealth = get_health"

text \<open>
  What a call writes to the table \<open>t\<close>: the rows of an \<^verbatim>\<open>insert\<close>, the values of an
  \<^verbatim>\<open>update\<close>; and what a list of calls writes to it.
\<close>

fun rows_for :: "string \<Rightarrow> effect \<Rightarrow> jsval list" where
  "rows_for t (Store (Insert t' rows)) = (if t' = t then rows else [])"
| "rows_for t (Store (InsertSelectSingle t' rows)) = (if t' = t then rows else [])"
| "rows_for t (Store (Update t' v c x)) = (if t' = t then [v] else [])"
| "rows_for t e = []"

definition written :: "string \<Rightarrow> effect list \<Rightarrow> jsval list" where
  "written t fx = concat (map (rows_for t) fx)"

text \<open>The calls that change the store: everything but a read.\<close>

fun is_write :: "effect \<Rightarrow> bool" where
  "is_write (Store (Select q)) = False"
| "is_write (Store c) = True"
| "is_write (Fetch url) = False"

section \<open>The store's reads\<close>

text \<open>
  Modelled from the spec: the store is an external collaborator, accessed through a query
  interface, and no code of it is in the repository. The spec (3, 4.5) has its tables hold
  rows, append-only, and derives "latest" by ordering on a timestamp column descending, in
  bounded queries. So a table is a list of rows, a row the list of its columns, and a read
  keeps the rows whose column equals the value asked for, orders them by the order column
  descending, keeps the first \<open>q_limit\<close> of them and returns the columns selected, with
  no error. How the store compares two values of a column is the parameter \<open>key\<close>, a
  total order; which of two rows with equal keys comes first is the stable choice of
  \<open>sort_key\<close>, and no theorem below depends on it.
\<close>

type_synonym row = "(string \<times> jsval) list"

type_synonym db = "string \<Rightarrow> row list"

definition col :: "row \<Rightarrow> string \<Rightarrow> jsval" where
  "col r c = (case map_of r c of None \<Rightarrow> JNull | Some v \<Rightarrow> v)"

text \<open>The equality of a filter: never true of \<^verbatim>\<open>null\<close>.\<close>

definition sql_eq :: "jsval \<Rightarrow> jsval \<Rightarrow> bool" where
  "sql_eq a b = (a = b \<and> a \<noteq> JNull \<and> a \<noteq> JUndefined)"

definition matches :: "(string \<times> jsval) option \<Rightarrow> row \<Rightarrow> bool" where
  "matches f r = (case f of None \<Rightarrow> True | Some (c, v) \<Rightarrow> sql_eq (col r c) v)"

definition project :: "string list option \<Rightarrow> row \<Rightarrow> jsval" where
  "project cols r = (case cols of None \<Rightarrow> JObj r | Some cs \<Rightarrow> JObj (map (\<lambda>c. (c, col r c)) cs))"

definition order_desc :: "(jsval \<Rightarrow> 'k::linorder) \<Rightarrow> string \<Rightarrow> row list \<Rightarrow> row list" where
  "order_desc key c rows = rev (sort_key (\<lambda>r. key (col r c)) rows)"

definition pg_rows :: "(jsval \<Rightarrow> 'k::linorder) \<Rightarrow> db \<Rightarrow> query \<Rightarrow> row list" where
  "pg_rows key d q =
     take (q_limit q) (order_desc key (q_order q) (filter (matches (q_eq q)) (d (q_table q))))"

definition pg_select :: "(jsval \<Rightarrow> 'k::linorder) \<Rightarrow> db \<Rightarrow> query \<Rightarrow> reply" where
  "pg_select key d q = \<lparr>data = JArr (map (project (q_columns q)) (pg_rows key d q)), error = JNull\<rparr>"

text \<open>The rows of the table \<open>t\<close> that belong to the user \<open>uid\<close>.\<close>

definition rows_of :: "db \<Rightarrow> string \<Rightarrow> jsval \<Rightarrow> row list" where
  "rows_of d t uid = filter (\<lambda>r. sql_eq (col r ''user_id'') uid) (d t)"

text \<open>Descending order of a list of rows by a column.\<close>

definition desc_by :: "(jsval \<Rightarrow> 'k::linorder) \<Rightarrow> string \<Rightarrow> row list \<Rightarrow> bool" where
  "desc_by key c rows = sorted_wrt (\<lambda>a b. key (col b c) \<le> key (col a c)) rows"

text \<open>
  The entry that the loop of \<^verbatim>\<open>GET /admin/users\<close> pushes for the user \<open>u\<close> when the
  store answers its reads as \<open>pg_select\<close> does (lemma \<open>admin_user_snapshot\<close> below).
\<close>

definition snapshot :: "(jsval \<Rightarrow> 'k::linorder) \<Rightarrow> db \<Rightarrow> jsval \<Rightarrow> jsval" where
  "snapshot key d u =
     (let uid = get_field u ''id'' in
      JObj [(''user'', u),
            (''last_location'',
               case order_desc key ''created_at'' (rows_of d ''device_locations'' uid) of
                 [] \<Rightarrow> JNull | x # xs \<Rightarrow> JObj x),
            (''last_ip'',
               case order_desc key ''created_at'' (rows_of d ''ip_locations'' uid) of
                 [] \<Rightarrow> JNull | x # xs \<Rightarrow> JObj x),
            (''calls'',
               JArr (map JObj (take 10 (order_desc key ''started_at'' (rows_of d ''call_logs'' uid)))))])"

text \<open>A store that answers reads from the tables \<open>d\<close> and reports no error on writes.\<close>

definition pg_store :: "(jsval \<Rightarrow> 'k::linorder) \<Rightarrow> db \<Rightarrow> store_call \<Rightarrow> reply" where
  "pg_store key d c =
     (case c of Select q \<Rightarrow> pg_select key d q | _ \<Rightarrow> \<lparr>data = JNull, error = JNull\<rparr>)"

section \<open>Example worlds and requests\<close>

text \<open>
  A store that reports no error and returns no data, one that returns a new user row, a
  clock that advances by one millisecond at every reading, and a provider that knows
  nothing about an address.
\<close>

definition store_ok :: "store_call \<Rightarrow> reply" where
  "store_ok c = \<lparr>data = JNull, error = JNull\<rparr>"

definition store_new :: "store_call \<Rightarrow> reply" where
  "store_new c =
     \<lparr>data = JObj [(''id'', JStr ''u-new''), (''username'', JStr ''alice'')], error = JNull\<rparr>"

definition tick :: "nat \<Rightarrow> int" where
  "tick k = 1000 + int k"

definition no_geo :: "string \<Rightarrow> exn + jsval" where
  "no_geo url = Inr (JObj [])"

definition w_ok :: world where
  "w_ok = \<lparr>clock = tick, store = store_ok, IPINFO_TOKEN = Some ''token'', fetch_json = no_geo,
          type_error_text = ''Cannot read properties of null''\<rparr>"

definition w_new :: world where
  "w_new = \<lparr>clock = tick, store = store_new, IPINFO_TOKEN = Some ''token'', fetch_json = no_geo,
          type_error_text = ''Cannot read properties of null''\<rparr>"

definition req_body :: "jsval \<Rightarrow> request" where
  "req_body b = \<lparr>headers = Map.empty, socket = None, body = b\<rparr>"

definition req_xff :: "string \<Rightarrow> string option \<Rightarrow> request" where
  "req_xff h peer = \<lparr>headers = [''x-forwarded-for'' \<mapsto> HStr h],
                     socket = Some \<lparr>remoteAddress = peer\<rparr>, body = JUndefined\<rparr>"

definition req_peer :: "string option \<Rightarrow> request" where
  "req_peer peer = \<lparr>headers = Map.empty, socket = Some \<lparr>remoteAddress = peer\<rparr>, body = JUndefined\<rparr>"

definition two_calls :: jsval where
  "two_calls =
     JObj [(''user_id'', JStr ''u1''),
           (''calls'', JArr [JObj [(''number'', JStr ''111'')],
                             JObj [(''number'', JStr ''222''), (''duration_seconds'', JNum 0),
                                   (''direction'', JStr '''')]])]"

definition null_call :: jsval where
  "null_call = JObj [(''user_id'', JStr ''u1''), (''calls'', JArr [JNull])]"

definition bad_date_call :: jsval where
  "bad_date_call =
     JObj [(''user_id'', JStr ''u1''),
           (''calls'', JArr [JObj [(''number'', JStr ''111''),
                                   (''started_at'', JObj [(''toString'', JNum 1),
                                                          (''valueOf'', JNum 1)])]])]"

definition empty_user_location :: jsval where
  "empty_user_location =
     JObj [(''user_id'', JStr ''''), (''latitude'', JNum 1), (''longitude'', JNum 2)]"

definition paris_location :: jsval where
  "paris_location =
     JObj [(''user_id'', JStr ''u1''), (''latitude'', JNum 48.8), (''longitude'', JNum 2.3),
           (''accuracy'', JNum 0)]"

definition backdated_location :: jsval where
  "backdated_location =
     JObj [(''user_id'', JStr ''u1''), (''latitude'', JNum 48.8), (''longitude'', JNum 2.3),
           (''created_at'', JStr ''1999-01-01T00:00:00Z'')]"

definition bad_id :: jsval where
  "bad_id = JObj [(''id'', JStr ''not-a-uuid''), (''username'', JStr ''bob'')]"

definition empty_id :: jsval where
  "empty_id = JObj [(''id'', JStr ''''), (''username'', JStr ''alice'')]"

definition odd_consent :: jsval where
  "odd_consent = JObj [(''user_id'', JNum 5), (''consent_text'', JBool True)]"

definition backdated_consent :: jsval where
  "backdated_consent =
     JObj [(''user_id'', JStr ''u1''), (''consent_text'', JStr ''I agree''),
           (''given'', JBool False), (''created_at'', JStr ''1999-01-01T00:00:00Z'')]"

text \<open>
  A store with two users, two locations and two calls of the first, one address of the
  second; its columns of dates are compared by their milliseconds.
\<close>

fun millis :: "jsval \<Rightarrow> int" where
  "millis (JDateAt t) = t"
| "millis v = 0"

definition db1 :: db where
  "db1 t =
     (if t = ''users'' then
        [[(''id'', JStr ''u1''), (''username'', JStr ''alice''), (''phone'', JNull),
          (''created_at'', JDateAt 10)],
         [(''id'', JStr ''u2''), (''username'', JStr ''bob''), (''phone'', JNull),
          (''created_at'', JDateAt 20)]]
      else if t = ''device_locations'' then
        [[(''user_id'', JStr ''u1''), (''latitude'', JNum 48.8), (''created_at'', JDateAt 100)],
         [(''user_id'', JStr ''u1''), (''latitude'', JNum 48.9), (''created_at'', JDateAt 200)]]
      else if t = ''ip_locations'' then
        [[(''user_id'', JStr ''u2''), (''ip'', JStr ''1.2.3.4''), (''created_at'', JDateAt 300)]]
      else if t = ''call_logs'' then
        [[(''user_id'', JStr ''u1''), (''number'', JStr ''111''), (''started_at'', JDateAt 5)],
         [(''user_id'', JStr ''u1''), (''number'', JStr ''222''), (''started_at'', JDateAt 7)]]
      else [])"

definition w_pg :: world where
  "w_pg = \<lparr>clock = tick, store = pg_store millis db1, IPINFO_TOKEN = None, fetch_json = no_geo,
          type_error_text = ''Cannot read properties of null''\<rparr>"

text \<open>
  The same store when its reads of \<open>device_locations\<close> fail: no data and an error.
\<close>

definition failing_reads :: "(jsval \<Rightarrow> 'k::linorder) \<Rightarrow> db \<Rightarrow> store_call \<Rightarrow> reply" where
  "failing_reads key d c =
     (case c of
        Select q \<Rightarrow>
          if q_table q = ''device_locations''
          then \<lparr>data = JNull, error = JObj [(''message'', JStr ''connection timed out'')]\<rparr>
          else pg_select key d q
      | _ \<Rightarrow> \<lparr>data = JNull, error = JNull\<rparr>)"

definition w_fail :: world where
  "w_fail = \<lparr>clock = tick, store = failing_reads millis db1, IPINFO_TOKEN = None,
             fetch_json = no_geo, type_error_text = ''Cannot read properties of null''\<rparr>"

section \<open>Properties\<close>

lemmas handler_defs = post_users_def users_body_def post_consent_def consent_body_def
  post_report_location_def location_body_def post_report_calls_def calls_body_def
  post_report_ip_def ip_body_def get_admin_users_def admin_body_def get_health_def
  catch500_def or_throw_def Let_def

lemmas example_defs = w_ok_def w_new_def store_ok_def store_new_def tick_def no_geo_def
  req_body_def two_calls_def null_call_def bad_date_call_def empty_user_location_def paris_location_def
  backdated_location_def bad_id_def empty_id_def odd_consent_def backdated_consent_def

subsection \<open>Reading properties\<close>

lemma get_field_obj [simp]:
  "get_field (JObj kvs) k = (case map_of kvs k of None \<Rightarrow> JUndefined | Some v \<Rightarrow> v)"
  by (simp add: get_field_def)

lemma get_prop_field: "get_prop v k = Inr x \<Longrightarrow> get_field v k = x"
  by (simp add: get_field_def)

lemma get_prop_defined: "v \<noteq> JNull \<Longrightarrow> v \<noteq> JUndefined \<Longrightarrow> get_prop v k = Inr (get_field v k)"
  by (cases v) (simp_all add: get_field_def)

subsection \<open>What the handlers write\<close>

lemma written_Nil [simp]: "written t [] = []"
  by (simp add: written_def)

lemma written_Cons [simp]: "written t (e # fx) = rows_for t e @ written t fx"
  by (simp add: written_def)

lemma written_append [simp]: "written t (fx @ fx') = written t fx @ written t fx'"
  by (simp add: written_def)

lemma call_row_defined:
  "c \<noteq> JNull \<Longrightarrow> c \<noteq> JUndefined \<Longrightarrow> \<not> date_throws (get_field c ''started_at'') \<Longrightarrow>
     \<exists>r. call_row w u k c = Inr r"
  by (simp add: call_row_def get_prop_defined new_date_def)

lemma call_row_fields:
  assumes "call_row w u k c = Inr r"
  shows "get_field r ''user_id'' = u"
    and "get_field r ''number'' = get_field c ''number''"
    and "get_field r ''direction'' = js_or (get_field c ''direction'') JNull"
    and "get_field r ''duration_seconds'' = js_or (get_field c ''duration_seconds'') JNull"
    and "get_field r ''created_at'' = JDateAt (clock w k)"
  using assms by (auto simp: call_row_def split: sum.splits if_splits dest: get_prop_field)

text \<open>The k-th row of a batch comes from the k-th element and the k-th reading of the clock.\<close>

lemma map_rows_nth:
  "map_rows w u k cs = Inr rows \<Longrightarrow>
     length rows = length cs \<and> (\<forall>i < length cs. call_row w u (k + i) (cs ! i) = Inr (rows ! i))"
proof (induction cs arbitrary: k rows)
  case Nil
  then show ?case by simp
next
  case (Cons c cs)
  from Cons.prems obtain r rs where r: "call_row w u k c = Inr r"
    and rs: "map_rows w u (Suc k) cs = Inr rs" and rows: "rows = r # rs"
    by (auto split: sum.splits)
  from Cons.IH [OF rs] have len: "length rs = length cs"
    and nth: "\<And>i. i < length cs \<Longrightarrow> call_row w u (Suc k + i) (cs ! i) = Inr (rs ! i)"
    by auto
  show ?case
  proof (intro conjI allI impI)
    show "length rows = length (c # cs)" using len rows by simp
  next
    fix i assume "i < length (c # cs)"
    then show "call_row w u (k + i) ((c # cs) ! i) = Inr (rows ! i)"
      using r rows nth by (cases i) auto
  qed
qed

lemma map_rows_defined:
  "JNull \<notin> set cs \<Longrightarrow> JUndefined \<notin> set cs \<Longrightarrow>
   \<forall>c \<in> set cs. \<not> date_throws (get_field c ''started_at'') \<Longrightarrow>
     \<exists>rows. map_rows w u k cs = Inr rows"
proof (induction cs arbitrary: k)
  case Nil
  then show ?case by simp
next
  case (Cons c cs)
  then obtain r where "call_row w u k c = Inr r"
    using call_row_defined [of c w u k] by auto
  moreover from Cons obtain rs where "map_rows w u (Suc k) cs = Inr rs" by fastforce
  ultimately show ?case by simp
qed

lemma map_rows_created_at:
  assumes m: "map_rows w u k cs = Inr rows" and "row \<in> set rows"
  shows "\<exists>i < length cs. get_field row ''created_at'' = JDateAt (clock w (k + i))"
proof -
  from assms obtain i where i: "i < length rows" and row: "row = rows ! i"
    by (auto simp: in_set_conv_nth)
  from map_rows_nth [OF m] i have "i < length cs"
    and "call_row w u (k + i) (cs ! i) = Inr (rows ! i)"
    by auto
  then show ?thesis using call_row_fields(5) row by blast
qed

lemma calls_written:
  assumes "written ''call_logs'' (snd (post_report_calls w req)) = rows" and "rows \<noteq> []"
  shows "\<exists>uid. map_rows w uid 0 (elements (get_field (body req) ''calls'')) = Inr rows"
  using assms by (auto simp: handler_defs fail_def split: sum.splits if_splits)

lemma written_users:
  "row \<in> set (written t (snd (post_users w req))) \<Longrightarrow>
     t = ''users'' \<and> (\<exists>u p. row = JObj [(''username'', u), (''phone'', p)])"
  by (auto simp: handler_defs split: sum.splits if_splits)

lemma written_consent:
  "row \<in> set (written t (snd (post_consent w req))) \<Longrightarrow>
     t = ''consent_logs'' \<and>
     (\<exists>u c. row = JObj [(''user_id'', u), (''consent_text'', c), (''given'', JBool True)])"
  by (auto simp: handler_defs split: sum.splits if_splits)

lemma written_location:
  "row \<in> set (written t (snd (post_report_location w req))) \<Longrightarrow>
     t = ''device_locations'' \<and> get_field row ''created_at'' = JDateAt (clock w 0)"
  by (auto simp: handler_defs split: sum.splits if_splits)

lemma written_calls:
  "row \<in> set (written t (snd (post_report_calls w req))) \<Longrightarrow>
     t = ''call_logs'' \<and> (\<exists>k. get_field row ''created_at'' = JDateAt (clock w k))"
  by (auto simp: handler_defs split: sum.splits if_splits dest: map_rows_created_at)

lemma written_ip:
  "row \<in> set (written t (snd (post_report_ip w req))) \<Longrightarrow>
     t = ''ip_locations'' \<and> get_field row ''created_at'' = JDateAt (clock w 0)"
  by (auto simp: handler_defs geo_row_def split: sum.splits if_splits option.splits)

lemma admin_user_reads: "written t (snd (admin_user w u)) = []"
  by (simp add: admin_user_def latest_query_def Let_def split: sum.splits)

lemma admin_loop_reads: "written t (snd (admin_loop w us)) = []"
  by (induction us) (auto simp: admin_user_reads split: prod.splits sum.splits
        dest: arg_cong [where f = "\<lambda>p. written t (snd p)"])

lemma written_admin: "written t (snd (get_admin_users w req)) = []"
  using admin_loop_reads [of t w]
  by (auto simp: handler_defs split: sum.splits prod.splits
        dest: arg_cong [where f = "\<lambda>p. written t (snd p)"])

lemma written_health: "written t (snd (get_health w req)) = []"
  by (simp add: get_health_def)

subsection \<open>Call-log ingestion\<close>

text \<open>
  C1, as amended. For every call-log report whose \<open>user_id\<close> is truthy and whose
  \<open>calls\<close> is an array of length N, with no \<^verbatim>\<open>null\<close> or \<^verbatim>\<open>undefined\<close> element and no
  element whose \<open>started_at\<close> makes \<^verbatim>\<open>new Date\<close> throw (an object with an own
  \<^verbatim>\<open>toString\<close>, or an array that holds one), the handler makes one batched insert of
  exactly N rows into \<open>call_logs\<close>; every row carries the submitted \<open>user_id\<close>, and the
  \<open>created_at\<close> of the k-th row is the k-th reading of the server clock, one reading
  for each row. When the store reports no error the response is
  \<open>{ok: true, inserted: N}\<close>, also for N = 0.
\<close>

theorem report_calls_inserts_N_rows:
  assumes uid: "get_prop (body req) ''user_id'' = Inr uid" and t: "truthy uid"
    and calls: "get_field (body req) ''calls'' = JArr calls"
    and nn: "JNull \<notin> set calls" "JUndefined \<notin> set calls"
    and dates: "\<forall>c \<in> set calls. \<not> date_throws (get_field c ''started_at'')"
  shows "\<exists>rows. snd (post_report_calls w req) = [Store (Insert ''call_logs'' rows)]
           \<and> length rows = length calls
           \<and> (\<forall>k < length calls. get_field (rows ! k) ''user_id'' = uid
                                 \<and> get_field (rows ! k) ''created_at'' = JDateAt (clock w k))
           \<and> (\<not> truthy (error (store w (Insert ''call_logs'' rows))) \<longrightarrow>
                fst (post_report_calls w req) = ok200 [(''inserted'', JNum (of_nat (length calls)))])"
proof -
  from nn dates obtain rows where rows: "map_rows w uid 0 calls = Inr rows"
    using map_rows_defined by blast
  from map_rows_nth [OF rows] have len: "length rows = length calls"
    and nth: "\<And>k. k < length calls \<Longrightarrow> call_row w uid k (calls ! k) = Inr (rows ! k)"
    by auto
  have fx: "snd (post_report_calls w req) = [Store (Insert ''call_logs'' rows)]"
    using uid t calls rows by (simp add: handler_defs)
  have ok: "\<not> truthy (error (store w (Insert ''call_logs'' rows))) \<Longrightarrow>
      fst (post_report_calls w req) = ok200 [(''inserted'', JNum (of_nat (length calls)))]"
    using uid t calls rows len by (simp add: handler_defs)
  have "\<forall>k < length calls. get_field (rows ! k) ''user_id'' = uid
          \<and> get_field (rows ! k) ''created_at'' = JDateAt (clock w k)"
    using nth call_row_fields(1,5) by blast
  with fx len ok show ?thesis by blast
qed

text \<open>
  C1 as stated fails: the rows of one batch do not share one \<open>created_at\<close>. With a clock
  that advances between two readings, the two rows of a batch of two carry the dates
  1000 and 1001.
\<close>

theorem report_calls_created_at_not_shared:
  "post_report_calls w_ok (req_body two_calls) =
     (ok200 [(''inserted'', JNum 2)],
      [Store (Insert ''call_logs''
         [JObj [(''user_id'', JStr ''u1''), (''number'', JStr ''111''), (''direction'', JNull),
                (''started_at'', JNull), (''duration_seconds'', JNull),
                (''created_at'', JDateAt 1000)],
          JObj [(''user_id'', JStr ''u1''), (''number'', JStr ''222''), (''direction'', JNull),
                (''started_at'', JNull), (''duration_seconds'', JNull),
                (''created_at'', JDateAt 1001)]])])
   \<and> JDateAt 1000 \<noteq> JDateAt 1001"
  by (simp add: handler_defs example_defs call_row_def js_or_def)

theorem report_calls_inserts_N_rows_witness:
  "get_prop (body (req_body two_calls)) ''user_id'' = Inr (JStr ''u1'')
   \<and> truthy (JStr ''u1'')
   \<and> get_field (body (req_body two_calls)) ''calls''
        = JArr [JObj [(''number'', JStr ''111'')],
                JObj [(''number'', JStr ''222''), (''duration_seconds'', JNum 0),
                      (''direction'', JStr '''')]]
   \<and> (\<exists>rows. snd (post_report_calls w_ok (req_body two_calls)) = [Store (Insert ''call_logs'' rows)]
         \<and> length rows = 2
         \<and> get_field (rows ! 1) ''created_at'' = JDateAt (clock w_ok 1)
         \<and> fst (post_report_calls w_ok (req_body two_calls)) = ok200 [(''inserted'', JNum 2)])"
proof -
  let ?cs = "[JObj [(''number'', JStr ''111'')],
              JObj [(''number'', JStr ''222''), (''duration_seconds'', JNum 0),
                    (''direction'', JStr '''')]]"
  have a: "get_prop (body (req_body two_calls)) ''user_id'' = Inr (JStr ''u1'')"
    by (simp add: example_defs)
  have b: "truthy (JStr ''u1'')" by simp
  have c: "get_field (body (req_body two_calls)) ''calls'' = JArr ?cs"
    by (simp add: example_defs)
  have d: "JNull \<notin> set ?cs" "JUndefined \<notin> set ?cs" by simp_all
  have d': "\<forall>c \<in> set ?cs. \<not> date_throws (get_field c ''started_at'')" by simp
  have e: "\<not> truthy (error (store w_ok c))" for c by (simp add: example_defs)
  from report_calls_inserts_N_rows [OF a b c d d', of w_ok] e a b c show ?thesis
    by auto
qed

text \<open>
  A \<^verbatim>\<open>null\<close> element makes the mapping throw, and so does a \<open>started_at\<close> that has no
  primitive value: the answer is 500 with the text of the engine, and nothing is
  inserted. The theorem above says nothing of such batches.
\<close>

lemma report_calls_null_element:
  "post_report_calls w (req_body null_call) = (fail 500 (JStr (type_error_text w)), [])"
  by (simp add: handler_defs example_defs call_row_def)

lemma report_calls_unconvertible_date:
  "post_report_calls w (req_body bad_date_call) = (fail 500 (JStr (type_error_text w)), [])"
  by (simp add: handler_defs example_defs call_row_def new_date_def)

subsection \<open>Location reports\<close>

text \<open>
  C2, as amended. For every location report (a JSON object) in which \<open>user_id\<close> is
  missing or otherwise falsy, or \<open>latitude\<close> or \<open>longitude\<close> is missing or not of type
  number (a numeric string is not), the response is 400 and no call on the store is
  made; when \<open>user_id\<close> is truthy and both coordinates are numbers, the handler makes
  one insert of a single row into \<open>device_locations\<close>, carrying the three values.
\<close>

theorem report_location_validation:
  assumes "body req = JObj kvs"
  shows "(if truthy (get_field (body req) ''user_id'')
             \<and> is_number (get_field (body req) ''latitude'')
             \<and> is_number (get_field (body req) ''longitude'')
          then \<exists>row. snd (post_report_location w req) = [Store (Insert ''device_locations'' [row])]
                 \<and> get_field row ''user_id'' = get_field (body req) ''user_id''
                 \<and> get_field row ''latitude'' = get_field (body req) ''latitude''
                 \<and> get_field row ''longitude'' = get_field (body req) ''longitude''
          else post_report_location w req =
                 (fail 400 (JStr ''user_id, latitude et longitude requis''), []))
         \<and> (map_of kvs ''user_id'' = None \<longrightarrow> \<not> truthy (get_field (body req) ''user_id''))
         \<and> (map_of kvs ''latitude'' = None \<longrightarrow> \<not> is_number (get_field (body req) ''latitude''))
         \<and> (map_of kvs ''longitude'' = None \<longrightarrow> \<not> is_number (get_field (body req) ''longitude''))
         \<and> (\<forall>s. map_of kvs ''latitude'' = Some (JStr s) \<longrightarrow>
                \<not> is_number (get_field (body req) ''latitude''))
         \<and> (\<forall>s. map_of kvs ''longitude'' = Some (JStr s) \<longrightarrow>
                \<not> is_number (get_field (body req) ''longitude''))"
  using assms by (simp add: handler_defs)

text \<open>
  C2 as stated fails in its converse: a \<open>user_id\<close> that is present but is the empty
  string is rejected with 400, with numeric coordinates, and nothing is written.
\<close>

theorem report_location_empty_user_id_rejected:
  "get_prop empty_user_location ''user_id'' = Inr (JStr '''')
   \<and> is_number (get_field empty_user_location ''latitude'')
   \<and> is_number (get_field empty_user_location ''longitude'')
   \<and> post_report_location w_ok (req_body empty_user_location)
       = (fail 400 (JStr ''user_id, latitude et longitude requis''), [])"
  by (simp add: handler_defs example_defs)

theorem report_location_validation_witness:
  "body (req_body paris_location) = paris_location
   \<and> truthy (get_field paris_location ''user_id'')
   \<and> is_number (get_field paris_location ''latitude'')
   \<and> is_number (get_field paris_location ''longitude'')
   \<and> (\<exists>row. snd (post_report_location w_ok (req_body paris_location))
               = [Store (Insert ''device_locations'' [row])]
         \<and> get_field row ''latitude'' = JNum 48.8)"
  using report_location_validation [of "req_body paris_location" _ w_ok]
  by (auto simp: req_body_def paris_location_def)

subsection \<open>Registration\<close>

text \<open>
  C3, as amended. The registration handler does not validate \<open>id\<close> and never answers
  400: its status is 200 or 500. Every truthy \<open>id\<close>, well-formed or not, selects the
  update: one \<^verbatim>\<open>update\<close> of \<open>users\<close> filtered by that \<open>id\<close> is made, and the response
  is \<open>{ok: true, id}\<close> when the store reports no error, 500 with the message of the
  store's error otherwise.
\<close>

theorem register_never_validates_id:
  "status (fst (post_users w req)) \<in> {200, 500}
   \<and> (\<forall>v. get_prop (body req) ''id'' = Inr v \<and> truthy v \<longrightarrow>
         (\<exists>c. c = Update ''users'' (JObj [(''username'', get_field (body req) ''username''),
                                         (''phone'', get_field (body req) ''phone'')]) ''id'' v
            \<and> snd (post_users w req) = [Store c]
            \<and> fst (post_users w req) =
                (if truthy (error (store w c))
                 then fail 500 (get_field (error (store w c)) ''message'')
                 else ok200 [(''id'', v)])))"
  by (auto simp: handler_defs ok200_def fail_def split: sum.splits)

text \<open>
  C3 as stated fails: an \<open>id\<close> that is no identifier of any form is not rejected; the
  update is sent to the store and the answer is 200.
\<close>

theorem register_bad_id_updates:
  "post_users w_ok (req_body bad_id) =
     (ok200 [(''id'', JStr ''not-a-uuid'')],
      [Store (Update ''users'' (JObj [(''username'', JStr ''bob''), (''phone'', JUndefined)])
                ''id'' (JStr ''not-a-uuid''))])
   \<and> status (ok200 [(''id'', JStr ''not-a-uuid'')]) = 200"
  by (simp add: handler_defs example_defs ok200_def)

theorem register_never_validates_id_witness:
  "get_prop (body (req_body bad_id)) ''id'' = Inr (JStr ''not-a-uuid'')
   \<and> truthy (JStr ''not-a-uuid'')
   \<and> fst (post_users w_ok (req_body bad_id)) = ok200 [(''id'', JStr ''not-a-uuid'')]"
  using register_never_validates_id [of w_ok "req_body bad_id"]
  by (simp add: example_defs)

text \<open>
  C10. For every registration request whose \<open>id\<close> is falsy (absent, \<^verbatim>\<open>null\<close>,
  \<^verbatim>\<open>false\<close>, 0 or the empty string) the insert runs, not the update: one
  \<^verbatim>\<open>insert(...).select().single()\<close> on \<open>users\<close> with the submitted \<open>username\<close> and
  \<open>phone\<close>, and the response carries the \<open>id\<close> of the row that the store returns.
\<close>

theorem register_falsy_id_inserts:
  assumes "get_prop (body req) ''id'' = Inr v" and "\<not> truthy v"
  shows "\<exists>c. c = InsertSelectSingle ''users''
                  [JObj [(''username'', get_field (body req) ''username''),
                         (''phone'', get_field (body req) ''phone'')]]
           \<and> snd (post_users w req) = [Store c]
           \<and> (\<not> truthy (error (store w c)) \<and> data (store w c) \<noteq> JNull
                \<and> data (store w c) \<noteq> JUndefined \<longrightarrow>
                fst (post_users w req) =
                  ok200 [(''id'', get_field (data (store w c)) ''id''), (''user'', data (store w c))])"
  using assms by (auto simp: handler_defs get_prop_defined split: sum.splits)

theorem register_falsy_id_inserts_witness:
  "get_prop (body (req_body empty_id)) ''id'' = Inr (JStr '''')
   \<and> \<not> truthy (JStr '''')
   \<and> post_users w_new (req_body empty_id) =
       (ok200 [(''id'', JStr ''u-new''),
               (''user'', JObj [(''id'', JStr ''u-new''), (''username'', JStr ''alice'')])],
        [Store (InsertSelectSingle ''users''
           [JObj [(''username'', JStr ''alice''), (''phone'', JUndefined)]])])"
  using register_falsy_id_inserts [of "req_body empty_id" "JStr ''''" w_new]
  by (auto simp: example_defs prod_eq_iff)

subsection \<open>Consent\<close>

text \<open>
  C6, as amended. For every consent request that has a parsed body (\<^verbatim>\<open>req.body\<close> is
  neither \<^verbatim>\<open>undefined\<close> nor \<^verbatim>\<open>null\<close>), validation succeeds exactly when \<open>user_id\<close>
  and \<open>consent_text\<close> are both truthy, which every non-empty string is and which the
  empty string and an absent field are not; the type of the two values is not checked.
  If either is falsy the response is 400 and no call on the store is made, otherwise the
  handler makes one insert of a single row into \<open>consent_logs\<close>.
\<close>

theorem consent_validation:
  assumes "body req \<noteq> JUndefined" and "body req \<noteq> JNull"
  shows "(if truthy (get_field (body req) ''user_id'')
             \<and> truthy (get_field (body req) ''consent_text'')
          then snd (post_consent w req) =
                 [Store (Insert ''consent_logs''
                    [JObj [(''user_id'', get_field (body req) ''user_id''),
                           (''consent_text'', get_field (body req) ''consent_text''),
                           (''given'', JBool True)]])]
          else post_consent w req = (fail 400 (JStr ''user_id et consent_text requis''), []))
         \<and> (\<forall>s. truthy (JStr s) = (s \<noteq> []))
         \<and> \<not> truthy JUndefined"
  using get_prop_defined [OF assms(2) assms(1), of "''user_id''"] by (simp add: handler_defs)

text \<open>
  C6 as stated fails: a number as \<open>user_id\<close> and a boolean as \<open>consent_text\<close>, neither
  of them a string, pass validation and a row is inserted.
\<close>

theorem consent_accepts_non_strings:
  "post_consent w_ok (req_body odd_consent) =
     (ok200 [],
      [Store (Insert ''consent_logs''
         [JObj [(''user_id'', JNum 5), (''consent_text'', JBool True), (''given'', JBool True)]])])"
  by (simp add: handler_defs example_defs)

theorem consent_validation_witness:
  "body (req_body backdated_consent) \<noteq> JUndefined
   \<and> body (req_body backdated_consent) \<noteq> JNull
   \<and> truthy (get_field (body (req_body backdated_consent)) ''user_id'')
   \<and> truthy (get_field (body (req_body backdated_consent)) ''consent_text'')
   \<and> snd (post_consent w_ok (req_body backdated_consent)) =
        [Store (Insert ''consent_logs''
           [JObj [(''user_id'', JStr ''u1''), (''consent_text'', JStr ''I agree''),
                  (''given'', JBool True)]])]"
  using consent_validation [of "req_body backdated_consent" w_ok]
  by (simp add: example_defs)

text \<open>
  C9. Every row that any endpoint writes to \<open>consent_logs\<close>, whatever the request, has
  \<open>given = true\<close>: no request records a consent that was not given.
\<close>

theorem consent_rows_always_given:
  "\<forall>row \<in> set (written ''consent_logs'' (snd (handle ep w req))).
      get_field row ''given'' = JBool True"
  by (cases ep)
     (auto simp: written_admin written_health
           dest: written_users written_consent written_location written_calls written_ip)

theorem consent_rows_always_given_witness:
  "written ''consent_logs'' (snd (handle PostConsent w_ok (req_body backdated_consent)))
     = [JObj [(''user_id'', JStr ''u1''), (''consent_text'', JStr ''I agree''),
              (''given'', JBool True)]]
   \<and> get_field (JObj [(''user_id'', JStr ''u1''), (''consent_text'', JStr ''I agree''),
                       (''given'', JBool True)]) ''given'' = JBool True"
  using consent_rows_always_given [of PostConsent w_ok "req_body backdated_consent"]
  by (simp add: handler_defs example_defs)

subsection \<open>Timestamps and optional fields\<close>

text \<open>
  C4, as amended. For every row that any endpoint writes to \<open>device_locations\<close>,
  \<open>call_logs\<close> or \<open>ip_locations\<close>, whatever the request, \<open>created_at\<close> is a reading of
  the server clock taken while the request is handled, and so is never taken from the
  request body. A row written to \<open>consent_logs\<close> carries no \<open>created_at\<close> at all: the
  handler assigns none and copies none from the body.
\<close>

theorem created_at_from_server_clock:
  "\<forall>row \<in> set (written t (snd (handle ep w req))).
      (t \<in> {''device_locations'', ''call_logs'', ''ip_locations''} \<longrightarrow>
         (\<exists>k. get_field row ''created_at'' = JDateAt (clock w k)))
    \<and> (t = ''consent_logs'' \<longrightarrow> get_field row ''created_at'' = JUndefined)"
  by (cases ep)
     (auto simp: written_admin written_health
           dest: written_users written_consent written_location written_calls written_ip)

text \<open>
  C4 as stated fails for consent rows: the row that the consent handler writes has no
  \<open>created_at\<close>, so the handler assigns none at write time.
\<close>

theorem consent_row_without_created_at:
  "written ''consent_logs'' (snd (post_consent w_ok (req_body backdated_consent)))
     = [JObj [(''user_id'', JStr ''u1''), (''consent_text'', JStr ''I agree''),
              (''given'', JBool True)]]
   \<and> get_prop (JObj [(''user_id'', JStr ''u1''), (''consent_text'', JStr ''I agree''),
                      (''given'', JBool True)]) ''created_at'' = Inr JUndefined"
  by (simp add: handler_defs example_defs)

theorem created_at_from_server_clock_witness:
  "get_field (body (req_body backdated_location)) ''created_at'' = JStr ''1999-01-01T00:00:00Z''
   \<and> written ''device_locations'' (snd (handle PostReportLocation w_ok (req_body backdated_location)))
       = [JObj [(''user_id'', JStr ''u1''), (''latitude'', JNum 48.8), (''longitude'', JNum 2.3),
                (''accuracy'', JNull), (''ip'', JNull), (''created_at'', JDateAt 1000)]]
   \<and> clock w_ok 0 = 1000"
  using created_at_from_server_clock
          [of "''device_locations''" PostReportLocation w_ok "req_body backdated_location"]
  by (simp add: handler_defs example_defs js_or_def getClientIp_def peer_address_def ip_value_def)

text \<open>
  C8. For every location report that is stored with \<open>accuracy\<close> equal to 0, the stored
  row holds \<^verbatim>\<open>null\<close> for \<open>accuracy\<close>; and for every element of a stored call-log batch
  with \<open>duration_seconds\<close> equal to 0 (or \<open>direction\<close> the empty string), the row stored
  for that element holds \<^verbatim>\<open>null\<close> for that field.
\<close>

theorem falsy_optionals_stored_as_null:
  "(truthy (get_field (body req) ''user_id'')
      \<and> is_number (get_field (body req) ''latitude'')
      \<and> is_number (get_field (body req) ''longitude'')
      \<and> get_prop (body req) ''accuracy'' = Inr (JNum 0) \<longrightarrow>
      (\<exists>row. written ''device_locations'' (snd (post_report_location w req)) = [row]
         \<and> get_field row ''accuracy'' = JNull))
   \<and> (\<forall>k < length (written ''call_logs'' (snd (post_report_calls w req))).
         (get_field (elements (get_field (body req) ''calls'') ! k) ''duration_seconds'' = JNum 0 \<longrightarrow>
            get_field (written ''call_logs'' (snd (post_report_calls w req)) ! k) ''duration_seconds''
              = JNull)
       \<and> (get_field (elements (get_field (body req) ''calls'') ! k) ''direction'' = JStr [] \<longrightarrow>
            get_field (written ''call_logs'' (snd (post_report_calls w req)) ! k) ''direction''
              = JNull))"
proof (intro conjI impI allI)
  assume "truthy (get_field (body req) ''user_id'')
      \<and> is_number (get_field (body req) ''latitude'')
      \<and> is_number (get_field (body req) ''longitude'')
      \<and> get_prop (body req) ''accuracy'' = Inr (JNum 0)"
  then show "\<exists>row. written ''device_locations'' (snd (post_report_location w req)) = [row]
         \<and> get_field row ''accuracy'' = JNull"
    by (cases "body req") (auto simp: handler_defs js_or_def get_field_def)
next
  let ?rows = "written ''call_logs'' (snd (post_report_calls w req))"
  let ?cs = "elements (get_field (body req) ''calls'')"
  fix k assume k: "k < length ?rows"
  then have "?rows \<noteq> []" by auto
  then obtain uid where m: "map_rows w uid 0 ?cs = Inr ?rows"
    using calls_written by blast
  from map_rows_nth [OF m] k have row: "call_row w uid k (?cs ! k) = Inr (?rows ! k)"
    by auto
  { assume "get_field (?cs ! k) ''duration_seconds'' = JNum 0"
    then show "get_field (?rows ! k) ''duration_seconds'' = JNull"
      using call_row_fields(4) [OF row] by (simp add: js_or_def) }
  { assume "get_field (?cs ! k) ''direction'' = JStr []"
    then show "get_field (?rows ! k) ''direction'' = JNull"
      using call_row_fields(3) [OF row] by (simp add: js_or_def) }
qed

theorem falsy_optionals_stored_as_null_witness:
  "truthy (get_field (body (req_body paris_location)) ''user_id'')
   \<and> get_prop (body (req_body paris_location)) ''accuracy'' = Inr (JNum 0)
   \<and> (\<exists>row. written ''device_locations'' (snd (post_report_location w_ok (req_body paris_location))) = [row]
         \<and> get_field row ''accuracy'' = JNull)
   \<and> length (written ''call_logs'' (snd (post_report_calls w_ok (req_body two_calls)))) = 2
   \<and> get_field (elements (get_field (body (req_body two_calls)) ''calls'') ! 1) ''duration_seconds'' = JNum 0
   \<and> get_field (elements (get_field (body (req_body two_calls)) ''calls'') ! 1) ''direction'' = JStr []
   \<and> get_field (written ''call_logs'' (snd (post_report_calls w_ok (req_body two_calls))) ! 1) ''duration_seconds'' = JNull
   \<and> get_field (written ''call_logs'' (snd (post_report_calls w_ok (req_body two_calls))) ! 1) ''direction'' = JNull"
proof -
  have a: "truthy (get_field (body (req_body paris_location)) ''user_id'')
      \<and> is_number (get_field (body (req_body paris_location)) ''latitude'')
      \<and> is_number (get_field (body (req_body paris_location)) ''longitude'')
      \<and> get_prop (body (req_body paris_location)) ''accuracy'' = Inr (JNum 0)"
    by (simp add: example_defs)
  have b: "length (written ''call_logs'' (snd (post_report_calls w_ok (req_body two_calls)))) = 2"
    by (simp add: handler_defs example_defs call_row_def)
  have c: "get_field (elements (get_field (body (req_body two_calls)) ''calls'') ! 1) ''duration_seconds'' = JNum 0"
    "get_field (elements (get_field (body (req_body two_calls)) ''calls'') ! 1) ''direction'' = JStr []"
    by (simp_all add: example_defs)
  from falsy_optionals_stored_as_null [of "req_body paris_location" w_ok] a
  have d: "\<exists>row. written ''device_locations'' (snd (post_report_location w_ok (req_body paris_location))) = [row]
         \<and> get_field row ''accuracy'' = JNull" by blast
  from falsy_optionals_stored_as_null [of "req_body two_calls" w_ok] b c
  have e: "get_field (written ''call_logs'' (snd (post_report_calls w_ok (req_body two_calls))) ! 1) ''duration_seconds'' = JNull
    \<and> get_field (written ''call_logs'' (snd (post_report_calls w_ok (req_body two_calls))) ! 1) ''direction'' = JNull"
    by simp
  from a b c d e show ?thesis by blast
qed

subsection \<open>Client network resolver\<close>

lemma split_comma_fst: "fst (split_comma s) = takeWhile (\<lambda>c. c \<noteq> CHR '','') s"
  by (induction s) (auto split: prod.splits)

lemma first_entry:
  "s = takeWhile (\<lambda>c. c \<noteq> CHR '','') s \<or>
   (\<exists>rest. s = takeWhile (\<lambda>c. c \<noteq> CHR '','') s @ CHR '','' # rest)"
proof (cases "dropWhile (\<lambda>c. c \<noteq> CHR '','') s")
  case Nil
  then show ?thesis by (metis append_Nil2 takeWhile_dropWhile_id)
next
  case (Cons c rest)
  then have "c = CHR '',''" using hd_dropWhile [of "\<lambda>c. c \<noteq> CHR '',''" s] by simp
  then show ?thesis using Cons by (metis takeWhile_dropWhile_id)
qed

lemma first_entry_no_comma: "CHR '','' \<notin> set (takeWhile (\<lambda>c. c \<noteq> CHR '','') s)"
  by (auto dest: set_takeWhileD)

lemma trim_tail:
  "dropWhile is_space s = trim s @ rev (takeWhile is_space (rev (dropWhile is_space s)))"
  unfolding trim_def by (metis rev_append rev_rev_ident takeWhile_dropWhile_id)

text \<open>Trimming removes white space at both ends and nothing else.\<close>

lemma trim_decomp:
  "\<exists>l r. s = l @ trim s @ r \<and> (\<forall>c \<in> set l. is_space c) \<and> (\<forall>c \<in> set r. is_space c)"
proof -
  let ?l = "takeWhile is_space s"
  let ?r = "rev (takeWhile is_space (rev (dropWhile is_space s)))"
  have "s = ?l @ trim s @ ?r" using trim_tail [of s] by (metis takeWhile_dropWhile_id)
  moreover have "\<forall>c \<in> set ?l. is_space c" by (auto dest: set_takeWhileD)
  moreover have "\<forall>c \<in> set ?r. is_space c" by (auto dest: set_takeWhileD)
  ultimately show ?thesis by blast
qed

lemma trim_last: "trim s \<noteq> [] \<Longrightarrow> \<not> is_space (last (trim s))"
  unfolding trim_def by (simp add: last_rev hd_dropWhile)

lemma trim_hd:
  assumes "trim s \<noteq> []"
  shows "\<not> is_space (hd (trim s))"
proof -
  let ?m = "dropWhile is_space s"
  have "hd ?m = hd (trim s)" using assms trim_tail [of s] by (metis hd_append2)
  moreover have "?m \<noteq> []" using assms trim_tail [of s] by (metis Nil_is_append_conv)
  ultimately show ?thesis using hd_dropWhile [of is_space s] by simp
qed

text \<open>
  C7, as amended. For every request, when the \<open>x-forwarded-for\<close> header is a non-empty
  string the resolver returns its first comma-separated entry with the white space at
  both ends removed; otherwise (the header absent, not a string, or the empty string)
  it returns the peer address of the transport when there is a non-empty one, and
  \<^verbatim>\<open>null\<close> when there is none.
\<close>

theorem resolver_forwarded_or_peer:
  "(\<forall>xff. headers req ''x-forwarded-for'' = Some (HStr xff) \<and> xff \<noteq> [] \<longrightarrow>
      (\<exists>ip l r. getClientIp req = Some ip
         \<and> (xff = l @ ip @ r \<or> (\<exists>rest. xff = l @ ip @ r @ CHR '','' # rest))
         \<and> CHR '','' \<notin> set (l @ ip @ r)
         \<and> (\<forall>c \<in> set (l @ r). is_space c)
         \<and> (ip \<noteq> [] \<longrightarrow> \<not> is_space (hd ip) \<and> \<not> is_space (last ip))))
   \<and> (headers req ''x-forwarded-for'' \<notin> {Some (HStr xff) | xff. xff \<noteq> []} \<longrightarrow>
        getClientIp req =
          (case socket req of
             None \<Rightarrow> None
           | Some sock \<Rightarrow>
               (case remoteAddress sock of
                  None \<Rightarrow> None
                | Some a \<Rightarrow> if a = [] then None else Some a)))"
proof (intro conjI allI impI)
  fix xff assume h: "headers req ''x-forwarded-for'' = Some (HStr xff) \<and> xff \<noteq> []"
  let ?e = "takeWhile (\<lambda>c. c \<noteq> CHR '','') xff"
  have ip: "getClientIp req = Some (trim ?e)"
    using h by (simp add: getClientIp_def split_comma_fst)
  obtain l r where lr: "?e = l @ trim ?e @ r"
    and sp: "\<forall>c \<in> set l. is_space c" "\<forall>c \<in> set r. is_space c"
    using trim_decomp [of ?e] by blast
  have "xff = ?e \<or> (\<exists>rest. xff = ?e @ CHR '','' # rest)" by (rule first_entry)
  then have a: "xff = l @ trim ?e @ r \<or> (\<exists>rest. xff = l @ trim ?e @ r @ CHR '','' # rest)"
    using lr by (metis append.assoc)
  have b: "CHR '','' \<notin> set (l @ trim ?e @ r)"
    using first_entry_no_comma [of xff] lr by metis
  have c: "\<forall>c \<in> set (l @ r). is_space c" using sp by auto
  have d: "trim ?e \<noteq> [] \<longrightarrow> \<not> is_space (hd (trim ?e)) \<and> \<not> is_space (last (trim ?e))"
    using trim_hd trim_last by blast
  from ip a b c d
  show "\<exists>ip l r. getClientIp req = Some ip
         \<and> (xff = l @ ip @ r \<or> (\<exists>rest. xff = l @ ip @ r @ CHR '','' # rest))
         \<and> CHR '','' \<notin> set (l @ ip @ r)
         \<and> (\<forall>c \<in> set (l @ r). is_space c)
         \<and> (ip \<noteq> [] \<longrightarrow> \<not> is_space (hd ip) \<and> \<not> is_space (last ip))"
    by blast
next
  assume "headers req ''x-forwarded-for'' \<notin> {Some (HStr xff) | xff. xff \<noteq> []}"
  then show "getClientIp req =
          (case socket req of
             None \<Rightarrow> None
           | Some sock \<Rightarrow>
               (case remoteAddress sock of
                  None \<Rightarrow> None
                | Some a \<Rightarrow> if a = [] then None else Some a))"
    by (auto simp: getClientIp_def peer_address_def split: option.splits hval.splits)
qed

text \<open>
  C7 as stated fails: a header that is present as the empty string does not resolve to
  its first entry, the empty string, but to the peer address.
\<close>

theorem resolver_empty_header_falls_back:
  "headers (req_xff '''' (Some ''10.0.0.7'')) ''x-forwarded-for'' = Some (HStr '''')
   \<and> getClientIp (req_xff '''' (Some ''10.0.0.7'')) = Some ''10.0.0.7''
   \<and> trim (fst (split_comma '''')) = ''''"
  by (simp add: req_xff_def getClientIp_def peer_address_def trim_def)

theorem resolver_forwarded_or_peer_witness:
  "headers (req_xff ''1.2.3.4, 5.6.7.6'' (Some ''10.0.0.7'')) ''x-forwarded-for''
     = Some (HStr ''1.2.3.4, 5.6.7.6'')
   \<and> ''1.2.3.4, 5.6.7.6'' \<noteq> []
   \<and> getClientIp (req_xff ''1.2.3.4, 5.6.7.6'' (Some ''10.0.0.7'')) = Some ''1.2.3.4''
   \<and> headers (req_peer (Some ''10.0.0.7'')) ''x-forwarded-for'' = None
   \<and> getClientIp (req_peer (Some ''10.0.0.7'')) = Some ''10.0.0.7''
   \<and> getClientIp (req_peer None) = None"
  using resolver_forwarded_or_peer [of "req_xff ''1.2.3.4, 5.6.7.6'' (Some ''10.0.0.7'')"]
    resolver_forwarded_or_peer [of "req_peer (Some ''10.0.0.7'')"]
  by (simp add: req_xff_def req_peer_def getClientIp_def peer_address_def trim_def is_space_def)

subsection \<open>Aggregation reader\<close>

lemma order_desc_mset: "mset (order_desc key c rows) = mset rows"
  by (simp add: order_desc_def)

lemma order_desc_set: "set (order_desc key c rows) = set rows"
  by (simp add: order_desc_def)

lemma order_desc_Nil: "(order_desc key c rows = []) = (rows = [])"
  using order_desc_set [of key c rows] by (metis set_empty)

lemma order_desc_sorted: "desc_by key c (order_desc key c rows)"
proof -
  have "sorted (map (\<lambda>r. key (col r c)) (sort_key (\<lambda>r. key (col r c)) rows))"
    by (rule sorted_sort_key)
  then have "sorted_wrt (\<lambda>a b. key (col a c) \<le> key (col b c)) (sort_key (\<lambda>r. key (col r c)) rows)"
    by (simp add: sorted_map)
  then show ?thesis
    by (simp add: desc_by_def order_desc_def sorted_wrt_rev)
qed

lemma desc_by_head:
  "desc_by key c (x # xs) \<Longrightarrow> y \<in> set (x # xs) \<Longrightarrow> key (col y c) \<le> key (col x c)"
  by (auto simp: desc_by_def)

text \<open>The first row of a descending order is a row with the greatest key.\<close>

lemma newest:
  assumes "rows \<noteq> []"
  shows "\<exists>x \<in> set rows.
           (case order_desc key c rows of [] \<Rightarrow> JNull | x # xs \<Rightarrow> JObj x) = JObj x
           \<and> (\<forall>y \<in> set rows. key (col y c) \<le> key (col x c))"
proof (cases "order_desc key c rows")
  case Nil
  then show ?thesis using assms by (simp add: order_desc_Nil)
next
  case (Cons x xs)
  have s: "desc_by key c (x # xs)" using order_desc_sorted [of key c rows] Cons by simp
  have e: "set (x # xs) = set rows" using order_desc_set [of key c rows] Cons by simp
  have "\<forall>y \<in> set rows. key (col y c) \<le> key (col x c)"
    using desc_by_head [OF s] e by blast
  moreover have "x \<in> set rows" using e by auto
  ultimately show ?thesis using Cons by auto
qed

lemma newest_or_null:
  "(rows = [] \<longrightarrow> (case order_desc key c rows of [] \<Rightarrow> JNull | x # xs \<Rightarrow> JObj x) = JNull)
   \<and> (rows \<noteq> [] \<longrightarrow>
        (\<exists>x \<in> set rows.
           (case order_desc key c rows of [] \<Rightarrow> JNull | x # xs \<Rightarrow> JObj x) = JObj x
           \<and> (\<forall>y \<in> set rows. key (col y c) \<le> key (col x c))))"
  using newest [of rows key c] by (auto simp: order_desc_def)

lemma matches_Some: "matches (Some (c, v)) = (\<lambda>r. sql_eq (col r c) v)"
  by (simp add: matches_def fun_eq_iff)

lemma matches_None: "matches None = (\<lambda>r. True)"
  by (simp add: matches_def fun_eq_iff)

lemma latest_rows:
  "pg_rows key d (latest_query t uid c n) = take n (order_desc key c (rows_of d t uid))"
  by (simp add: pg_rows_def latest_query_def rows_of_def matches_Some)

lemma users_rows:
  "pg_rows key d users_query = take 200 (order_desc key ''created_at'' (d ''users''))"
  by (simp add: pg_rows_def users_query_def matches_None)

lemma select_latest:
  "data (pg_select key d (latest_query t uid c n)) =
     JArr (map JObj (take n (order_desc key c (rows_of d t uid))))"
  by (simp add: pg_select_def latest_rows) (simp add: latest_query_def project_def)

lemma first_of_latest:
  "js_or (opt_first (JArr (map JObj (take 1 (order_desc key c rows))))) JNull =
     (case order_desc key c rows of [] \<Rightarrow> JNull | x # xs \<Rightarrow> JObj x)"
  by (cases "order_desc key c rows") (simp_all add: js_or_def)

lemma admin_user_snapshot:
  assumes sel: "\<And>q. store w (Select q) = pg_select key d q"
    and u: "u \<noteq> JNull" "u \<noteq> JUndefined"
  shows "fst (admin_user w u) = Inr (snapshot key d u)"
proof -
  let ?uid = "get_field u ''id''"
  have id: "get_prop u ''id'' = Inr ?uid" using u by (rule get_prop_defined)
  have loc:
    "js_or (opt_first (data (store w (Select (latest_query ''device_locations'' ?uid ''created_at'' 1))))) JNull
      = (case order_desc key ''created_at'' (rows_of d ''device_locations'' ?uid) of
           [] \<Rightarrow> JNull | x # xs \<Rightarrow> JObj x)"
    by (simp only: sel select_latest first_of_latest)
  have ip:
    "js_or (opt_first (data (store w (Select (latest_query ''ip_locations'' ?uid ''created_at'' 1))))) JNull
      = (case order_desc key ''created_at'' (rows_of d ''ip_locations'' ?uid) of
           [] \<Rightarrow> JNull | x # xs \<Rightarrow> JObj x)"
    by (simp only: sel select_latest first_of_latest)
  have calls:
    "js_or (data (store w (Select (latest_query ''call_logs'' ?uid ''started_at'' 10)))) (JArr [])
      = JArr (map JObj (take 10 (order_desc key ''started_at'' (rows_of d ''call_logs'' ?uid))))"
    by (simp only: sel select_latest js_or_def truthy.simps if_True)
  show ?thesis
    unfolding admin_user_def snapshot_def Let_def id
    by (simp only: sum.case fst_conv loc ip calls)
qed

lemma admin_loop_snapshots:
  assumes sel: "\<And>q. store w (Select q) = pg_select key d q"
    and us: "JNull \<notin> set us" "JUndefined \<notin> set us"
  shows "fst (admin_loop w us) = Inr (map (snapshot key d) us)"
  using us
proof (induction us)
  case Nil
  then show ?case by simp
next
  case (Cons u us)
  have "u \<noteq> JNull" "u \<noteq> JUndefined" using Cons.prems by auto
  then have "fst (admin_user w u) = Inr (snapshot key d u)"
    by (rule admin_user_snapshot [OF sel])
  moreover have "fst (admin_loop w us) = Inr (map (snapshot key d) us)"
    using Cons by simp
  ultimately show ?case
    by (cases "admin_user w u"; cases "admin_loop w us") auto
qed

lemma admin_results:
  assumes sel: "\<And>q. store w (Select q) = pg_select key d q"
  shows "fst (get_admin_users w req) =
           ok200 [(''results'', JArr (map (snapshot key d)
              (map (project (q_columns users_query))
                 (take 200 (order_desc key ''created_at'' (d ''users''))))))]"
proof -
  let ?us = "map (project (q_columns users_query))
               (take 200 (order_desc key ''created_at'' (d ''users'')))"
  have users: "data (store w (Select users_query)) = JArr ?us"
    by (simp add: sel pg_select_def users_rows)
  have "JNull \<notin> set ?us" "JUndefined \<notin> set ?us"
    by (auto simp: project_def split: option.splits)
  then have "fst (admin_loop w ?us) = Inr (map (snapshot key d) ?us)"
    by (rule admin_loop_snapshots [OF sel])
  then show ?thesis using users
    by (cases "admin_loop w ?us") (simp add: handler_defs)
qed

lemma snapshot_fields:
  "get_field (snapshot key d u) ''user'' = u"
  "get_field (snapshot key d u) ''last_location'' =
     (case order_desc key ''created_at'' (rows_of d ''device_locations'' (get_field u ''id'')) of
        [] \<Rightarrow> JNull | x # xs \<Rightarrow> JObj x)"
  "get_field (snapshot key d u) ''last_ip'' =
     (case order_desc key ''created_at'' (rows_of d ''ip_locations'' (get_field u ''id'')) of
        [] \<Rightarrow> JNull | x # xs \<Rightarrow> JObj x)"
  "get_field (snapshot key d u) ''calls'' =
     JArr (map JObj (take 10 (order_desc key ''started_at'' (rows_of d ''call_logs'' (get_field u ''id'')))))"
  by (simp_all add: snapshot_def Let_def)

lemma project_users_id:
  "get_field (project (q_columns users_query) r) ''id'' = col r ''id''"
  by (simp add: project_def users_query_def)

text \<open>
  When the store answers every read of \<^verbatim>\<open>GET /admin/users\<close> as modelled, the call
  succeeds and its result holds the first 200 users, at most, in descending order of
  their registration \<open>created_at\<close>; and for each of them, \<open>last_location\<close> is a row of
  the user in \<open>device_locations\<close> with the greatest \<open>created_at\<close> (\<^verbatim>\<open>null\<close> when the
  user has none), \<open>last_ip\<close> is a row of the user in \<open>ip_locations\<close> with the greatest
  \<open>created_at\<close> (\<^verbatim>\<open>null\<close> when there is none), and \<open>calls\<close> holds the first 10, at
  most, of the user's rows in \<open>call_logs\<close> in descending order of \<open>started_at\<close>.
\<close>

lemma admin_users_when_reads_succeed:
  assumes sel: "\<And>q. store w (Select q) = pg_select key d q"
  shows "\<exists>users results.
      mset users = mset (d ''users'') \<and> desc_by key ''created_at'' users
    \<and> fst (get_admin_users w req) = ok200 [(''results'', JArr results)]
    \<and> length results = min 200 (length users)
    \<and> (\<forall>i < length results.
          get_field (results ! i) ''user'' =
            project (Some [''id'', ''username'', ''phone'', ''created_at'']) (users ! i)
        \<and> (rows_of d ''device_locations'' (col (users ! i) ''id'') = [] \<longrightarrow>
             get_field (results ! i) ''last_location'' = JNull)
        \<and> (rows_of d ''device_locations'' (col (users ! i) ''id'') \<noteq> [] \<longrightarrow>
             (\<exists>x \<in> set (rows_of d ''device_locations'' (col (users ! i) ''id'')).
                get_field (results ! i) ''last_location'' = JObj x
              \<and> (\<forall>y \<in> set (rows_of d ''device_locations'' (col (users ! i) ''id'')).
                    key (col y ''created_at'') \<le> key (col x ''created_at''))))
        \<and> (rows_of d ''ip_locations'' (col (users ! i) ''id'') = [] \<longrightarrow>
             get_field (results ! i) ''last_ip'' = JNull)
        \<and> (rows_of d ''ip_locations'' (col (users ! i) ''id'') \<noteq> [] \<longrightarrow>
             (\<exists>x \<in> set (rows_of d ''ip_locations'' (col (users ! i) ''id'')).
                get_field (results ! i) ''last_ip'' = JObj x
              \<and> (\<forall>y \<in> set (rows_of d ''ip_locations'' (col (users ! i) ''id'')).
                    key (col y ''created_at'') \<le> key (col x ''created_at''))))
        \<and> (\<exists>calls. mset calls = mset (rows_of d ''call_logs'' (col (users ! i) ''id''))
              \<and> desc_by key ''started_at'' calls
              \<and> get_field (results ! i) ''calls'' = JArr (map JObj (take 10 calls))))"
proof -
  let ?users = "order_desc key ''created_at'' (d ''users'')"
  let ?page = "map (project (q_columns users_query)) (take 200 ?users)"
  let ?results = "map (snapshot key d) ?page"
  have cols: "q_columns users_query = Some [''id'', ''username'', ''phone'', ''created_at'']"
    by (simp add: users_query_def)
  have a: "mset ?users = mset (d ''users'')" by (rule order_desc_mset)
  have b: "desc_by key ''created_at'' ?users" by (rule order_desc_sorted)
  have c: "fst (get_admin_users w req) = ok200 [(''results'', JArr ?results)]"
    by (rule admin_results [OF sel])
  have len: "length ?results = min 200 (length ?users)" by simp
  have each: "get_field (?results ! i) ''user'' =
            project (Some [''id'', ''username'', ''phone'', ''created_at'']) (?users ! i)
        \<and> (rows_of d ''device_locations'' (col (?users ! i) ''id'') = [] \<longrightarrow>
             get_field (?results ! i) ''last_location'' = JNull)
        \<and> (rows_of d ''device_locations'' (col (?users ! i) ''id'') \<noteq> [] \<longrightarrow>
             (\<exists>x \<in> set (rows_of d ''device_locations'' (col (?users ! i) ''id'')).
                get_field (?results ! i) ''last_location'' = JObj x
              \<and> (\<forall>y \<in> set (rows_of d ''device_locations'' (col (?users ! i) ''id'')).
                    key (col y ''created_at'') \<le> key (col x ''created_at''))))
        \<and> (rows_of d ''ip_locations'' (col (?users ! i) ''id'') = [] \<longrightarrow>
             get_field (?results ! i) ''last_ip'' = JNull)
        \<and> (rows_of d ''ip_locations'' (col (?users ! i) ''id'') \<noteq> [] \<longrightarrow>
             (\<exists>x \<in> set (rows_of d ''ip_locations'' (col (?users ! i) ''id'')).
                get_field (?results ! i) ''last_ip'' = JObj x
              \<and> (\<forall>y \<in> set (rows_of d ''ip_locations'' (col (?users ! i) ''id'')).
                    key (col y ''created_at'') \<le> key (col x ''created_at''))))
        \<and> (\<exists>calls. mset calls = mset (rows_of d ''call_logs'' (col (?users ! i) ''id''))
              \<and> desc_by key ''started_at'' calls
              \<and> get_field (?results ! i) ''calls'' = JArr (map JObj (take 10 calls)))"
    if i: "i < length ?results" for i
  proof -
    let ?r = "?users ! i"
    let ?u = "project (q_columns users_query) ?r"
    from i have i200: "i < 200" and iu: "i < length ?users" by simp_all
    have nth: "?results ! i = snapshot key d ?u"
      using i200 iu by simp
    have uid: "get_field ?u ''id'' = col ?r ''id''" by (rule project_users_id)
    have calls: "\<exists>calls. mset calls = mset (rows_of d ''call_logs'' (col ?r ''id''))
              \<and> desc_by key ''started_at'' calls
              \<and> get_field (?results ! i) ''calls'' = JArr (map JObj (take 10 calls))"
      unfolding nth snapshot_fields uid
      using order_desc_mset order_desc_sorted by blast
    show ?thesis
      unfolding nth snapshot_fields uid
      using newest_or_null [of "rows_of d ''device_locations'' (col ?r ''id'')" key "''created_at''"]
        newest_or_null [of "rows_of d ''ip_locations'' (col ?r ''id'')" key "''created_at''"]
        calls [unfolded nth snapshot_fields uid] cols
      by simp
  qed
  from a b c len each show ?thesis by blast
qed

text \<open>
  On the example store: the user registered last comes first, and the first user, with
  locations at 100 and 200, is reported with the location at 200.
\<close>

lemma admin_users_example:
  "fst (get_admin_users w_pg (req_body JUndefined)) =
       ok200 [(''results'', JArr
         [JObj [(''user'', JObj [(''id'', JStr ''u2''), (''username'', JStr ''bob''),
                                 (''phone'', JNull), (''created_at'', JDateAt 20)]),
                (''last_location'', JNull),
                (''last_ip'', JObj [(''user_id'', JStr ''u2''), (''ip'', JStr ''1.2.3.4''),
                                    (''created_at'', JDateAt 300)]),
                (''calls'', JArr [])],
          JObj [(''user'', JObj [(''id'', JStr ''u1''), (''username'', JStr ''alice''),
                                 (''phone'', JNull), (''created_at'', JDateAt 10)]),
                (''last_location'', JObj [(''user_id'', JStr ''u1''), (''latitude'', JNum 48.9),
                                          (''created_at'', JDateAt 200)]),
                (''last_ip'', JNull),
                (''calls'', JArr [JObj [(''user_id'', JStr ''u1''), (''number'', JStr ''222''),
                                        (''started_at'', JDateAt 7)],
                                  JObj [(''user_id'', JStr ''u1''), (''number'', JStr ''111''),
                                        (''started_at'', JDateAt 5)]])]])]"
  by code_simp

text \<open>
  C5 fails on the code. The claim: for every successful \<^verbatim>\<open>GET /admin/users\<close> call,
  \<open>last_location\<close> is the user's row in \<open>device_locations\<close> with the greatest
  \<open>created_at\<close>. The handler never reads the \<open>error\<close> of a read, where every writing
  handler throws on it. On the example store, when the reads of \<open>device_locations\<close>
  fail, the call still succeeds, with status 200 and \<open>ok: true\<close>, and reports
  \<open>last_location: null\<close> for the first user, whose two location rows are in the store.
\<close>

theorem admin_failed_read_answers_ok:
  "fst (get_admin_users w_fail (req_body JUndefined)) =
       ok200 [(''results'', JArr
         [JObj [(''user'', JObj [(''id'', JStr ''u2''), (''username'', JStr ''bob''),
                                 (''phone'', JNull), (''created_at'', JDateAt 20)]),
                (''last_location'', JNull),
                (''last_ip'', JObj [(''user_id'', JStr ''u2''), (''ip'', JStr ''1.2.3.4''),
                                    (''created_at'', JDateAt 300)]),
                (''calls'', JArr [])],
          JObj [(''user'', JObj [(''id'', JStr ''u1''), (''username'', JStr ''alice''),
                                 (''phone'', JNull), (''created_at'', JDateAt 10)]),
                (''last_location'', JNull),
                (''last_ip'', JNull),
                (''calls'', JArr [JObj [(''user_id'', JStr ''u1''), (''number'', JStr ''222''),
                                        (''started_at'', JDateAt 7)],
                                  JObj [(''user_id'', JStr ''u1''), (''number'', JStr ''111''),
                                        (''started_at'', JDateAt 5)]])]])]
   \<and> status (fst (get_admin_users w_fail (req_body JUndefined))) = 200
   \<and> rows_of db1 ''device_locations'' (JStr ''u1'') =
        [[(''user_id'', JStr ''u1''), (''latitude'', JNum 48.8), (''created_at'', JDateAt 100)],
         [(''user_id'', JStr ''u1''), (''latitude'', JNum 48.9), (''created_at'', JDateAt 200)]]
   \<and> store w_fail (Select (latest_query ''device_locations'' (JStr ''u1'') ''created_at'' 1)) =
        \<lparr>data = JNull, error = JObj [(''message'', JStr ''connection timed out'')]\<rparr>"
  by code_simp

end
